theory Spec2Isabelle
  imports Main "HOL-Library.AList"
begin

section \<open>Values of the OpenAPI document and of tool arguments\<close>

text \<open>
  \<^verbatim>\<open>yaml.safe_load\<close> and the JSON-RPC layer hand the program trees of dicts, lists and
  scalars. A dict keeps its insertion order, so it is an association list; its keys are
  strings. A \<open>char\<close> is one character, a code point below 256. Numbers are integers.
\<close>

datatype json =
    JNull
  | JBool bool
  | JInt int
  | JStr string
  | JList "json list"
  | JDict "(string \<times> json) list"

text \<open>The exceptions the modelled code can raise. \<open>NonStringKey\<close> is no exception of
  Python: it marks a step that would build a dict with a key that is not a string, which
  the values above cannot hold.\<close>

datatype py_error =
    TypeError
  | AttributeError
  | KeyError
  | IndexError
  | ValueError
  | RecursionError
  | ValidationError
  | NonStringKey

subsection \<open>The Python operations the source applies to these values\<close>

text \<open>Truthiness: \<^verbatim>\<open>if x\<close>, \<^verbatim>\<open>not x\<close>, \<^verbatim>\<open>x or y\<close>.\<close>

fun truthy :: "json \<Rightarrow> bool" where
  "truthy JNull = False"
| "truthy (JBool b) = b"
| "truthy (JInt i) = (i \<noteq> 0)"
| "truthy (JStr s) = (s \<noteq> [])"
| "truthy (JList xs) = (xs \<noteq> [])"
| "truthy (JDict d) = (d \<noteq> [])"

text \<open>\<^verbatim>\<open>x == y\<close>: \<^verbatim>\<open>None\<close> equals only itself, a bool equals the integer 0 or 1 it stands
  for, lists are equal element by element, dicts are equal when they have the same keys
  with equal values, whatever the order of their entries.\<close>

fun py_eq :: "json \<Rightarrow> json \<Rightarrow> bool" where
  "py_eq JNull y = (y = JNull)"
| "py_eq (JBool a) y =
     (case y of JBool b \<Rightarrow> a = b | JInt j \<Rightarrow> (if a then 1 else 0) = j | _ \<Rightarrow> False)"
| "py_eq (JInt i) y =
     (case y of JInt j \<Rightarrow> i = j | JBool b \<Rightarrow> i = (if b then 1 else 0) | _ \<Rightarrow> False)"
| "py_eq (JStr s) y = (y = JStr s)"
| "py_eq (JList xs) y = (case y of JList ys \<Rightarrow> list_all2 py_eq xs ys | _ \<Rightarrow> False)"
| "py_eq (JDict d) y =
     (case y of
        JDict e \<Rightarrow>
          length d = length e \<and>
          list_all (\<lambda>kv. case map_of e (fst kv) of None \<Rightarrow> False | Some w \<Rightarrow> py_eq (snd kv) w) d
      | _ \<Rightarrow> False)"

text \<open>\<^verbatim>\<open>s.startswith(p)\<close> and \<^verbatim>\<open>p in s\<close> on strings.\<close>

definition startswith :: "string \<Rightarrow> string \<Rightarrow> bool" where
  "startswith s p = (take (length p) s = p)"

fun substring :: "string \<Rightarrow> string \<Rightarrow> bool" where
  "substring p [] = (p = [])"
| "substring p (c # cs) = (startswith (c # cs) p \<or> substring p cs)"

text \<open>\<^verbatim>\<open>k in x\<close>: key membership on a dict, substring test on a string, element test on
  a list, \<^verbatim>\<open>TypeError\<close> on anything else.\<close>

fun py_contains :: "string \<Rightarrow> json \<Rightarrow> py_error + bool" where
  "py_contains k (JDict d) = Inr (k \<in> fst ` set d)"
| "py_contains k (JStr s) = Inr (substring k s)"
| "py_contains k (JList xs) = Inr (JStr k \<in> set xs)"
| "py_contains k _ = Inl TypeError"

text \<open>\<^verbatim>\<open>x[k]\<close> with a string key: only a dict has one.\<close>

fun py_getitem :: "json \<Rightarrow> string \<Rightarrow> py_error + json" where
  "py_getitem (JDict d) k = (case map_of d k of None \<Rightarrow> Inl KeyError | Some v \<Rightarrow> Inr v)"
| "py_getitem _ k = Inl TypeError"

text \<open>\<^verbatim>\<open>x.get(k, default)\<close> and \<^verbatim>\<open>x.items()\<close>: methods of dicts only.\<close>

fun py_get :: "json \<Rightarrow> string \<Rightarrow> json \<Rightarrow> py_error + json" where
  "py_get (JDict d) k dflt = Inr (case map_of d k of None \<Rightarrow> dflt | Some v \<Rightarrow> v)"
| "py_get _ k dflt = Inl AttributeError"

fun py_items :: "json \<Rightarrow> py_error + (string \<times> json) list" where
  "py_items (JDict d) = Inr d"
| "py_items _ = Inl AttributeError"

text \<open>\<^verbatim>\<open>for x in v\<close>: the elements of a list, the keys of a dict, the characters of a
  string.\<close>

fun py_iter :: "json \<Rightarrow> py_error + json list" where
  "py_iter (JList xs) = Inr xs"
| "py_iter (JDict d) = Inr (map (\<lambda>kv. JStr (fst kv)) d)"
| "py_iter (JStr s) = Inr (map (\<lambda>c. JStr [c]) s)"
| "py_iter _ = Inl TypeError"

text \<open>\<^verbatim>\<open>s.upper()\<close>, exact on ASCII. The source only tests whether the result is one of
  the five method names: a string with a character outside ASCII never passes that test,
  in Python (where such a character stays outside ASCII, or is the sharp s and becomes
  \<^verbatim>\<open>SS\<close>) as here (where it stays as it is).\<close>

definition upper_char :: "char \<Rightarrow> char" where
  "upper_char c =
     (let n = (of_char c :: nat) in if 97 \<le> n \<and> n \<le> 122 then char_of (n - 32) else c)"

definition upper :: "string \<Rightarrow> string" where
  "upper s = map upper_char s"

text \<open>\<^verbatim>\<open>s.replace(old, new)\<close> for a non-empty \<open>old\<close>: left to right, without overlaps.\<close>

fun replace_all :: "string \<Rightarrow> string \<Rightarrow> string \<Rightarrow> string" where
  "replace_all old new [] = []"
| "replace_all old new (c # cs) =
     (if old \<noteq> [] \<and> startswith (c # cs) old
      then new @ replace_all old new (drop (length old - 1) cs)
      else c # replace_all old new cs)"

text \<open>\<^verbatim>\<open>s.split(sep)\<close> for a one-character separator.\<close>

fun split_on :: "char \<Rightarrow> string \<Rightarrow> string list" where
  "split_on sep [] = [[]]"
| "split_on sep (c # cs) =
     (if c = sep then [] # split_on sep cs
      else (case split_on sep cs of [] \<Rightarrow> [[c]] | w # ws \<Rightarrow> (c # w) # ws))"

text \<open>\<^verbatim>\<open>s.encode()\<close>: the UTF-8 bytes of a string, one byte for a code point below 128, two
  for the others.\<close>

definition utf8_char :: "char \<Rightarrow> nat list" where
  "utf8_char c =
     (let n = (of_char c :: nat) in if n < 128 then [n] else [192 + n div 64, 128 + n mod 64])"

definition encode :: "string \<Rightarrow> nat list" where
  "encode s = concat (map utf8_char s)"

text \<open>\<^verbatim>\<open>base64.b64encode\<close> on bytes.\<close>

definition b64_alphabet :: string where
  "b64_alphabet = ''ABCDEFGHIJKLMNOPQRSTUVWXYZabcdefghijklmnopqrstuvwxyz0123456789+/''"

definition b64_digit :: "nat \<Rightarrow> char" where
  "b64_digit n = b64_alphabet ! (n mod 64)"

fun b64_bytes :: "nat list \<Rightarrow> string" where
  "b64_bytes [] = []"
| "b64_bytes [a] = [b64_digit (a div 4), b64_digit ((a mod 4) * 16), CHR ''='', CHR ''='']"
| "b64_bytes [a, b] =
     [b64_digit (a div 4), b64_digit ((a mod 4) * 16 + b div 16),
      b64_digit ((b mod 16) * 4), CHR ''='']"
| "b64_bytes (a # b # c # rest) =
     [b64_digit (a div 4), b64_digit ((a mod 4) * 16 + b div 16),
      b64_digit ((b mod 16) * 4 + c div 64), b64_digit (c mod 64)] @ b64_bytes rest"

definition b64encode :: "nat list \<Rightarrow> string" where
  "b64encode bs = b64_bytes bs"

section \<open>Credentials\<close>

text \<open>The process environment: \<^verbatim>\<open>os.getenv(name, "")\<close> for the two credentials.\<close>

record environ =
  API_USERNAME :: string
  API_PASSWORD :: string

definition get_auth_header :: "environ \<Rightarrow> string" where
  "get_auth_header env =
     (if API_USERNAME env \<noteq> [] \<and> API_PASSWORD env \<noteq> []
      then b64encode (encode (API_USERNAME env @ '':'' @ API_PASSWORD env))
      else [])"

section \<open>The dispatcher: \<^verbatim>\<open>call_tool\<close>\<close>

text \<open>What leaves the process: one \<^verbatim>\<open>httpx\<close> request. \<open>rq_json\<close> is the \<^verbatim>\<open>json=\<close>
  argument; \<open>None\<close> when the call passes none, so that the request has no body.\<close>

record request =
  rq_method :: string
  rq_url :: string
  rq_headers :: "(string \<times> string) list"
  rq_params :: "(string \<times> json) list"
  rq_json :: "(string \<times> json) list option"

record response =
  status_code :: nat
  resp_headers :: "(string \<times> string) list"
  resp_text :: string

text \<open>
  The library behaviour the dispatcher relies on and the repository does not contain:
  the HTTP client (an exception, as type name and message, or a response), the JSON
  parser and printer (\<^verbatim>\<open>indent=2\<close>; the flag is \<^verbatim>\<open>ensure_ascii\<close>), \<^verbatim>\<open>str\<close> on a value
  that is not a string, and the regular-expression search for an HTML title.
\<close>

record runtime =
  send :: "request \<Rightarrow> (string \<times> string) + response"
  json_loads :: "string \<Rightarrow> json option"
  json_dumps :: "bool \<Rightarrow> json \<Rightarrow> string"
  str_other :: "json \<Rightarrow> string"
  title_search :: "string \<Rightarrow> string option"

datatype text_content = TextContent string

definition API_BASE_URL :: string where
  "API_BASE_URL = ''https://your-WYGIWYH.com''"

definition http_methods :: "string list" where
  "http_methods = [''GET'', ''POST'', ''PUT'', ''PATCH'', ''DELETE'']"

definition py_str :: "runtime \<Rightarrow> json \<Rightarrow> string" where
  "py_str rt v = (case v of JStr s \<Rightarrow> s | _ \<Rightarrow> str_other rt v)"

fun show_nat :: "nat \<Rightarrow> string" where
  "show_nat n =
     (if n < 10 then [char_of (48 + n)] else show_nat (n div 10) @ [char_of (48 + n mod 10)])"

definition newline :: string where
  "newline = [CHR 0x0A]"

subsection \<open>Operation lookup\<close>

text \<open>The tool name is whatever the caller passes: the HTTP front end hands over
  \<^verbatim>\<open>params.get("name")\<close> unchecked, so it is any value, \<^verbatim>\<open>None\<close> when the request has no
  name.

  The inner loop over the methods of one path item: the first operation under an HTTP
  method for which \<^verbatim>\<open>op.get("operationId") == name\<close>, with the method in upper case.\<close>

fun scan_methods :: "json \<Rightarrow> (string \<times> json) list \<Rightarrow> py_error + (string \<times> json) option" where
  "scan_methods name [] = Inr None"
| "scan_methods name ((http_method, op) # rest) =
     (if upper http_method \<notin> set http_methods then scan_methods name rest
      else (case py_get op ''operationId'' JNull of
              Inl e \<Rightarrow> Inl e
            | Inr v \<Rightarrow>
                if py_eq v name then Inr (Some (upper http_method, op))
                else scan_methods name rest))"

text \<open>The outer loop. Its state is the triple \<^verbatim>\<open>(path, method, operation)\<close>, \<open>None\<close> while
  all three are \<^verbatim>\<open>None\<close>. It stops after a path item only when \<^verbatim>\<open>path\<close> is truthy, so a
  match under the empty path does not stop it.\<close>

definition path_truthy :: "(string \<times> string \<times> json) option \<Rightarrow> bool" where
  "path_truthy st = (case st of None \<Rightarrow> False | Some (p, m, op) \<Rightarrow> p \<noteq> [])"

fun scan_paths ::
  "json \<Rightarrow> (string \<times> json) list \<Rightarrow> (string \<times> string \<times> json) option
   \<Rightarrow> py_error + (string \<times> string \<times> json) option" where
  "scan_paths name [] st = Inr st"
| "scan_paths name ((api_path, path_item) # rest) st =
     (case py_items path_item of
        Inl e \<Rightarrow> Inl e
      | Inr ms \<Rightarrow>
          (case scan_methods name ms of
             Inl e \<Rightarrow> Inl e
           | Inr r \<Rightarrow>
               (let st' = (case r of None \<Rightarrow> st | Some (m, op) \<Rightarrow> Some (api_path, m, op))
                in if path_truthy st' then Inr st' else scan_paths name rest st')))"

text \<open>Lines 206 to 222: the loops run over \<^verbatim>\<open>openapi_spec.get("paths", {}).items()\<close>.\<close>

definition lookup_operation :: "json \<Rightarrow> json \<Rightarrow> py_error + (string \<times> string \<times> json) option" where
  "lookup_operation openapi_spec name =
     (case py_get openapi_spec ''paths'' (JDict []) of
        Inl e \<Rightarrow> Inl e
      | Inr paths \<Rightarrow>
          (case py_items paths of
             Inl e \<Rightarrow> Inl e
           | Inr ps \<Rightarrow> scan_paths name ps None))"

subsection \<open>Argument splitting\<close>

type_synonym pydict = "(string \<times> json) list"

definition split_step :: "string \<times> json \<Rightarrow> pydict \<times> pydict \<times> pydict \<Rightarrow> pydict \<times> pydict \<times> pydict" where
  "split_step kv acc =
     (case acc of (path_params, query_params, body_data) \<Rightarrow>
        (let key = fst kv; v = snd kv in
         if startswith key ''path_'' then (AList.update (drop 5 key) v path_params, query_params, body_data)
         else if startswith key ''query_'' then (path_params, AList.update (drop 6 key) v query_params, body_data)
         else if startswith key ''body_'' then (path_params, query_params, AList.update (drop 5 key) v body_data)
         else (path_params, query_params, body_data)))"

definition split_arguments :: "pydict \<Rightarrow> pydict \<times> pydict \<times> pydict" where
  "split_arguments arguments = fold split_step arguments ([], [], [])"

definition substitute_path :: "runtime \<Rightarrow> string \<Rightarrow> pydict \<Rightarrow> string" where
  "substitute_path rt path path_params =
     fold (\<lambda>kv url. replace_all (''{'' @ fst kv @ ''}'') (py_str rt (snd kv)) url) path_params path"

subsection \<open>The request\<close>

definition base_headers :: "string \<Rightarrow> (string \<times> string) list" where
  "base_headers auth_header =
     [(''Authorization'', ''Basic '' @ auth_header), (''Accept'', ''application/json'')]"

definition with_body :: "string \<Rightarrow> string \<Rightarrow> (string \<times> string) list \<Rightarrow> pydict \<Rightarrow> pydict \<Rightarrow> request" where
  "with_body method full_url headers query_params body_data =
     (if body_data \<noteq> []
      then \<lparr>rq_method = method, rq_url = full_url,
            rq_headers = AList.update ''Content-Type'' ''application/json'' headers,
            rq_params = query_params, rq_json = Some body_data\<rparr>
      else \<lparr>rq_method = method, rq_url = full_url, rq_headers = headers,
            rq_params = query_params, rq_json = None\<rparr>)"

definition without_body :: "string \<Rightarrow> string \<Rightarrow> (string \<times> string) list \<Rightarrow> pydict \<Rightarrow> request" where
  "without_body method full_url headers query_params =
     \<lparr>rq_method = method, rq_url = full_url, rq_headers = headers,
      rq_params = query_params, rq_json = None\<rparr>"

text \<open>The \<^verbatim>\<open>if\<close>/\<^verbatim>\<open>elif\<close> chain over the method; \<open>None\<close> is its last branch,
  \<^verbatim>\<open>Unsupported HTTP method\<close>.\<close>

definition build_request ::
  "string \<Rightarrow> string \<Rightarrow> (string \<times> string) list \<Rightarrow> pydict \<Rightarrow> pydict \<Rightarrow> request option" where
  "build_request method full_url headers query_params body_data =
     (if method = ''GET'' then Some (without_body method full_url headers query_params)
      else if method = ''POST'' then Some (with_body method full_url headers query_params body_data)
      else if method = ''PUT'' then Some (with_body method full_url headers query_params body_data)
      else if method = ''PATCH'' then Some (with_body method full_url headers query_params body_data)
      else if method = ''DELETE'' then Some (without_body method full_url headers query_params)
      else None)"

subsection \<open>The response\<close>

text \<open>\<^verbatim>\<open>response.headers.get("content-type", "")\<close>: header names compare without case, and
  the values of a repeated header are joined with a comma and a space.\<close>

fun join_comma :: "string list \<Rightarrow> string" where
  "join_comma [] = []"
| "join_comma [v] = v"
| "join_comma (v # w # vs) = v @ '', '' @ join_comma (w # vs)"

definition header_get :: "(string \<times> string) list \<Rightarrow> string \<Rightarrow> string" where
  "header_get headers k =
     join_comma (map snd (filter (\<lambda>hv. upper (fst hv) = upper k) headers))"

definition no_content_payload :: json where
  "no_content_payload =
     JDict [(''status'', JStr ''success''),
            (''message'', JStr ''Resource deleted or no content returned'')]"

definition success_text :: "runtime \<Rightarrow> response \<Rightarrow> string" where
  "success_text rt resp =
     json_dumps rt False
       (if status_code resp = 204 then no_content_payload
        else (case json_loads rt (resp_text resp) of
                Some j \<Rightarrow> j
              | None \<Rightarrow>
                  (let content_type = header_get (resp_headers resp) ''content-type'' in
                   if substring ''text/html'' content_type
                   then JDict [(''status'', JStr ''success''),
                               (''content_type'', JStr content_type),
                               (''message'', JStr ''Response received (HTML content)''),
                               (''text_preview'', JStr (take 500 (resp_text resp)))]
                   else JDict [(''response'', JStr (resp_text resp))])))"

definition error_detail :: "runtime \<Rightarrow> response \<Rightarrow> string" where
  "error_detail rt resp =
     (case json_loads rt (resp_text resp) of
        Some j \<Rightarrow> json_dumps rt True j
      | None \<Rightarrow>
          (let content_type = header_get (resp_headers resp) ''content-type'' in
           if substring ''text/html'' content_type
           then ''HTML Error Page (status '' @ show_nat (status_code resp) @ '')'' @
                (if resp_text resp \<noteq> []
                 then (case title_search rt (resp_text resp) of
                         Some t \<Rightarrow> newline @ ''Title: '' @ t
                       | None \<Rightarrow> [])
                 else [])
           else take 500 (resp_text resp)))"

text \<open>\<^verbatim>\<open>raise_for_status\<close> of the HTTP client raises for every status outside 200..299.\<close>

definition is_success :: "nat \<Rightarrow> bool" where
  "is_success s = (200 \<le> s \<and> s < 300)"

definition handle_outcome :: "runtime \<Rightarrow> (string \<times> string) + response \<Rightarrow> text_content" where
  "handle_outcome rt outcome =
     (case outcome of
        Inl (type_name, msg) \<Rightarrow> TextContent (''Error: '' @ type_name @ '': '' @ msg)
      | Inr resp \<Rightarrow>
          if is_success (status_code resp) then TextContent (success_text rt resp)
          else TextContent (''HTTP Error '' @ show_nat (status_code resp) @ '':'' @ newline @
                            error_detail rt resp))"

subsection \<open>Dispatch\<close>

definition missing_credentials :: "text_content list" where
  "missing_credentials =
     [TextContent ''Error: API_USERNAME and API_PASSWORD environment variables must be set to make API calls'']"

definition tool_not_found :: "string \<Rightarrow> text_content list" where
  "tool_not_found name =
     [TextContent (''Error: Tool '' @ [CHR 0x27] @ name @ [CHR 0x27] @ '' not found in API specification'')]"

text \<open>
  \<open>call_tool\<close> returns what the Python returns or raises, and the requests it sent, in
  order. The message for a tool that is not found formats the name with \<^verbatim>\<open>str\<close>.
\<close>

definition call_tool ::
  "runtime \<Rightarrow> environ \<Rightarrow> json \<Rightarrow> json \<Rightarrow> pydict \<Rightarrow> (py_error + text_content list) \<times> request list" where
  "call_tool rt env openapi_spec name arguments =
     (let auth_header = get_auth_header env in
      if auth_header = [] then (Inr missing_credentials, [])
      else
        (case lookup_operation openapi_spec name of
           Inl e \<Rightarrow> (Inl e, [])
         | Inr None \<Rightarrow> (Inr (tool_not_found (py_str rt name)), [])
         | Inr (Some (path, method, operation)) \<Rightarrow>
             if path = [] \<or> method = [] then (Inr (tool_not_found (py_str rt name)), [])
             else
               (case split_arguments arguments of (path_params, query_params, body_data) \<Rightarrow>
                  (let url = substitute_path rt path path_params;
                       full_url = API_BASE_URL @ url;
                       headers = base_headers auth_header
                   in case build_request method full_url headers query_params body_data of
                        None \<Rightarrow> (Inr [TextContent (''Error: Unsupported HTTP method: '' @ method)], [])
                      | Some req \<Rightarrow> (Inr [handle_outcome rt (send rt req)], [req])))))"

section \<open>The operations of a document\<close>


fun dict_items :: "json \<Rightarrow> pydict" where
  "dict_items (JDict d) = d"
| "dict_items _ = []"









section \<open>Notions the claims about the dispatcher use\<close>

text \<open>The third bucket of the split, and the \<^verbatim>\<open>Content-Type\<close> header of a request.\<close>

definition body_fields :: "pydict \<Rightarrow> pydict" where
  "body_fields arguments = snd (snd (split_arguments arguments))"


text \<open>Re-namespacing, in the words of the specification: every key of a bucket gets the
  prefix of its bucket back. \<open>namespaced\<close> says that a key carries one of the three
  prefixes.\<close>

definition renamespaced_keys :: "pydict \<times> pydict \<times> pydict \<Rightarrow> string list" where
  "renamespaced_keys buckets =
     (case buckets of (path_params, query_params, body_data) \<Rightarrow>
        map (\<lambda>kv. ''path_'' @ fst kv) path_params @
        map (\<lambda>kv. ''query_'' @ fst kv) query_params @
        map (\<lambda>kv. ''body_'' @ fst kv) body_data)"

definition namespaced :: "string \<Rightarrow> bool" where
  "namespaced key =
     (startswith key ''path_'' \<or> startswith key ''query_'' \<or> startswith key ''body_'')"

section \<open>The schema resolver: \<^verbatim>\<open>convert_openapi_to_json_schema\<close>\<close>

text \<open>Sequencing of steps that may raise.\<close>

definition ebind :: "py_error + 'a \<Rightarrow> ('a \<Rightarrow> py_error + 'b) \<Rightarrow> py_error + 'b" where
  "ebind m f = (case m of Inl e \<Rightarrow> Inl e | Inr x \<Rightarrow> f x)"

text \<open>\<^verbatim>\<open>x[0]\<close>.\<close>

fun py_index0 :: "json \<Rightarrow> py_error + json" where
  "py_index0 (JList (x # xs)) = Inr x"
| "py_index0 (JList []) = Inl IndexError"
| "py_index0 (JStr (c # cs)) = Inr (JStr [c])"
| "py_index0 (JStr []) = Inl IndexError"
| "py_index0 (JDict d) = Inl KeyError"
| "py_index0 _ = Inl TypeError"

text \<open>\<^verbatim>\<open>d.update(v)\<close> on a dict \<open>d\<close>. A dict argument overwrites and appends its entries in
  order. Any other iterable is a sequence of pairs: each element is read as a sequence
  of length two (a list, a string of two characters, a dict with two keys), key first.
  The characters of a non-empty string have length one, so a non-empty string raises.
  A key that is a list or a dict is unhashable. A key that is a number, a bool or
  \<^verbatim>\<open>None\<close> would make a dict whose keys are not all strings; the values of this model
  have no such dict, and \<open>NonStringKey\<close> marks the place.\<close>

fun update_pair :: "json \<Rightarrow> py_error + (json \<times> json)" where
  "update_pair (JList [k, v]) = Inr (k, v)"
| "update_pair (JList xs) = Inl ValueError"
| "update_pair (JStr [a, b]) = Inr (JStr [a], JStr [b])"
| "update_pair (JStr s) = Inl ValueError"
| "update_pair (JDict [kv1, kv2]) = Inr (JStr (fst kv1), JStr (fst kv2))"
| "update_pair (JDict d) = Inl ValueError"
| "update_pair _ = Inl TypeError"

fun update_pairs :: "pydict \<Rightarrow> json list \<Rightarrow> py_error + pydict" where
  "update_pairs d [] = Inr d"
| "update_pairs d (x # xs) =
     ebind (update_pair x) (\<lambda>kv.
       case fst kv of
         JStr k \<Rightarrow> update_pairs (AList.update k (snd kv) d) xs
       | JList ys \<Rightarrow> Inl TypeError
       | JDict e \<Rightarrow> Inl TypeError
       | _ \<Rightarrow> Inl NonStringKey)"

fun py_dict_update :: "pydict \<Rightarrow> json \<Rightarrow> py_error + pydict" where
  "py_dict_update d (JDict e) = Inr (fold (\<lambda>kv acc. AList.update (fst kv) (snd kv) acc) e d)"
| "py_dict_update d (JList xs) = update_pairs d xs"
| "py_dict_update d (JStr []) = Inr d"
| "py_dict_update d (JStr (c # cs)) = Inl ValueError"
| "py_dict_update d _ = Inl TypeError"

text \<open>\<^verbatim>\<open>r in d\<close> for a dict \<open>d\<close> and any value \<open>r\<close>: lists and dicts are unhashable.\<close>

fun py_key_in :: "json \<Rightarrow> pydict \<Rightarrow> py_error + bool" where
  "py_key_in (JStr k) d = Inr (k \<in> fst ` set d)"
| "py_key_in (JList xs) d = Inl TypeError"
| "py_key_in (JDict e) d = Inl TypeError"
| "py_key_in _ d = Inr False"

text \<open>\<^verbatim>\<open>list(set(xs))\<close>: unhashable elements raise; the order of the result is the set's
  iteration order, which the program does not determine. It is a parameter
  \<open>set_order\<close> of the model.\<close>

fun hashable :: "json \<Rightarrow> bool" where
  "hashable (JList xs) = False"
| "hashable (JDict d) = False"
| "hashable _ = True"

definition py_list_set :: "(json list \<Rightarrow> json list) \<Rightarrow> json list \<Rightarrow> py_error + json list" where
  "py_list_set set_order xs = (if list_all hashable xs then Inr (set_order xs) else Inl TypeError)"

subsection \<open>The \<^verbatim>\<open>$ref\<close> branch\<close>

text \<open>The target of a reference value, \<open>None\<close> when the code falls through to the next
  branch. The indices 1, 2 and 3 are read only when the tests before them hold.\<close>

definition ref_lookup :: "string \<Rightarrow> json \<Rightarrow> py_error + json option" where
  "ref_lookup schema_name components =
     ebind (py_get components ''schemas'' (JDict [])) (\<lambda>schemas.
     ebind (py_contains schema_name schemas) (\<lambda>present.
       if present
       then ebind (py_getitem components ''schemas'') (\<lambda>ss.
            ebind (py_getitem ss schema_name) (\<lambda>target. Inr (Some target)))
       else Inr None))"

fun ref_path_target :: "string list \<Rightarrow> json \<Rightarrow> py_error + json option" where
  "ref_path_target [] components = Inl IndexError"
| "ref_path_target [a] components = (if a = ''#'' then Inl IndexError else Inr None)"
| "ref_path_target [a, b] components =
     (if a = ''#'' \<and> b = ''components'' then Inl IndexError else Inr None)"
| "ref_path_target [a, b, c] components =
     (if a = ''#'' \<and> b = ''components'' \<and> c = ''schemas'' then Inl IndexError else Inr None)"
| "ref_path_target (a # b # c # schema_name # rest) components =
     (if a = ''#'' \<and> b = ''components'' \<and> c = ''schemas''
      then ref_lookup schema_name components else Inr None)"

definition ref_target :: "json \<Rightarrow> json \<Rightarrow> py_error + json option" where
  "ref_target schema components =
     ebind (py_getitem schema ''$ref'') (\<lambda>ref.
       case ref of
         JStr s \<Rightarrow> ref_path_target (split_on CHR ''/'' s) components
       | _ \<Rightarrow> Inl AttributeError)"

subsection \<open>The \<^verbatim>\<open>allOf\<close> branch\<close>

text \<open>One round of the loop body after the recursive call, on the state
  \<^verbatim>\<open>(merged_properties, merged_required, merged_type)\<close>; \<^verbatim>\<open>merged_type\<close> starts as
  \<^verbatim>\<open>None\<close>.\<close>

definition merge_converted ::
  "json \<Rightarrow> pydict \<times> json list \<times> json \<Rightarrow> py_error + (pydict \<times> json list \<times> json)" where
  "merge_converted converted acc =
     (case acc of (merged_properties, merged_required, merged_type) \<Rightarrow>
      ebind (py_contains ''properties'' converted) (\<lambda>has_p.
      ebind (if has_p
             then ebind (py_getitem converted ''properties'') (py_dict_update merged_properties)
             else Inr merged_properties) (\<lambda>mp.
      ebind (py_contains ''required'' converted) (\<lambda>has_r.
      ebind (if has_r
             then ebind (py_getitem converted ''required'') (\<lambda>rq.
                  ebind (py_iter rq) (\<lambda>rs. Inr (merged_required @ rs)))
             else Inr merged_required) (\<lambda>mr.
      ebind (py_contains ''type'' converted) (\<lambda>has_t.
      ebind (if has_t \<and> \<not> truthy merged_type
             then py_getitem converted ''type''
             else Inr merged_type) (\<lambda>mt.
      Inr (mp, mr, mt))))))))"

fun all_of_loop ::
  "(json \<Rightarrow> py_error + json) \<Rightarrow> json list \<Rightarrow> pydict \<times> json list \<times> json
   \<Rightarrow> py_error + (pydict \<times> json list \<times> json)" where
  "all_of_loop rec [] acc = Inr acc"
| "all_of_loop rec (sub_schema # rest) acc =
     ebind (rec sub_schema) (\<lambda>converted.
     ebind (merge_converted converted acc) (\<lambda>acc'.
     all_of_loop rec rest acc'))"

definition all_of_result ::
  "(json list \<Rightarrow> json list) \<Rightarrow> pydict \<times> json list \<times> json \<Rightarrow> py_error + json" where
  "all_of_result set_order acc =
     (case acc of (merged_properties, merged_required, merged_type) \<Rightarrow>
      (let r1 = [(''type'', if truthy merged_type then merged_type else JStr ''object'')];
           r2 = (if merged_properties \<noteq> []
                 then AList.update ''properties'' (JDict merged_properties) r1 else r1)
       in if merged_required \<noteq> []
          then ebind (py_list_set set_order merged_required) (\<lambda>rs.
                 Inr (JDict (AList.update ''required'' (JList rs) r2)))
          else Inr (JDict r2)))"

definition convert_all_of ::
  "(json \<Rightarrow> py_error + json) \<Rightarrow> (json list \<Rightarrow> json list) \<Rightarrow> json \<Rightarrow> py_error + json" where
  "convert_all_of rec set_order schema =
     ebind (py_getitem schema ''allOf'') (\<lambda>subs.
     ebind (py_iter subs) (\<lambda>sub_schemas.
     ebind (all_of_loop rec sub_schemas ([], [], JNull)) (all_of_result set_order)))"

subsection \<open>The \<^verbatim>\<open>oneOf\<close> branch\<close>

definition convert_one_of :: "json \<Rightarrow> py_error + json" where
  "convert_one_of schema = ebind (py_get schema ''oneOf'' (JList [JDict []])) py_index0"

subsection \<open>The last branch\<close>

fun properties_loop ::
  "(json \<Rightarrow> py_error + json) \<Rightarrow> (string \<times> json) list \<Rightarrow> pydict \<Rightarrow> py_error + pydict" where
  "properties_loop rec [] acc = Inr acc"
| "properties_loop rec ((prop_name, prop_schema) # rest) acc =
     ebind (py_get prop_schema ''readOnly'' (JBool False)) (\<lambda>ro.
       if \<not> truthy ro
       then ebind (rec prop_schema) (\<lambda>c. properties_loop rec rest (AList.update prop_name c acc))
       else properties_loop rec rest acc)"

fun required_filter :: "json list \<Rightarrow> pydict \<Rightarrow> py_error + json list" where
  "required_filter [] props = Inr []"
| "required_filter (r # rs) props =
     ebind (py_key_in r props) (\<lambda>keep.
     ebind (required_filter rs props) (\<lambda>rest.
     Inr (if keep then r # rest else rest)))"

definition copied_keys :: "string list" where
  "copied_keys = [''description'', ''title'', ''maxLength'', ''minLength'', ''maximum'',
     ''minimum'', ''pattern'', ''format'', ''nullable'', ''items'', ''enum'']"

fun copy_keys :: "string list \<Rightarrow> json \<Rightarrow> pydict \<Rightarrow> py_error + pydict" where
  "copy_keys [] schema result = Inr result"
| "copy_keys (key # keys) schema result =
     ebind (py_contains key schema) (\<lambda>has.
       if has
       then ebind (py_getitem schema key) (\<lambda>v. copy_keys keys schema (AList.update key v result))
       else copy_keys keys schema result)"

definition convert_plain :: "(json \<Rightarrow> py_error + json) \<Rightarrow> json \<Rightarrow> py_error + json" where
  "convert_plain rec schema =
     ebind (py_contains ''type'' schema) (\<lambda>has_t.
     ebind (if has_t
            then ebind (py_getitem schema ''type'') (\<lambda>t. Inr [(''type'', t)])
            else Inr []) (\<lambda>r1.
     ebind (py_contains ''properties'' schema) (\<lambda>has_p.
     ebind (if has_p
            then ebind (py_getitem schema ''properties'') (\<lambda>ps.
                 ebind (py_items ps) (\<lambda>items.
                 ebind (properties_loop rec items []) (\<lambda>props.
                 Inr (AList.update ''properties'' (JDict props) r1))))
            else Inr r1) (\<lambda>r2.
     ebind (py_contains ''required'' schema) (\<lambda>has_r.
     ebind (if has_r
            then ebind (py_getitem schema ''required'') (\<lambda>rq.
                 ebind (py_iter rq) (\<lambda>rs.
                 ebind (py_get (JDict r2) ''properties'' (JDict [])) (\<lambda>props.
                 ebind (required_filter rs (dict_items props)) (\<lambda>kept.
                 Inr (AList.update ''required'' (JList kept) r2)))))
            else Inr r2) (\<lambda>r3.
     ebind (copy_keys copied_keys schema r3) (\<lambda>r4. Inr (JDict r4))))))))"

subsection \<open>The function\<close>

text \<open>
  The body, with the recursive call as a parameter. The tests come in the order of the
  source: empty schema, \<^verbatim>\<open>$ref\<close>, \<^verbatim>\<open>allOf\<close>, \<^verbatim>\<open>oneOf\<close>, then the last branch.
\<close>

definition convert_body ::
  "(json \<Rightarrow> py_error + json) \<Rightarrow> (json list \<Rightarrow> json list) \<Rightarrow> json \<Rightarrow> json \<Rightarrow> py_error + json" where
  "convert_body rec set_order schema components =
     (if \<not> truthy schema
      then Inr (JDict [(''type'', JStr ''object''), (''properties'', JDict [])])
      else
        ebind (py_contains ''$ref'' schema) (\<lambda>has_ref.
        ebind (if has_ref then ref_target schema components else Inr None) (\<lambda>target.
          case target of
            Some t \<Rightarrow> rec t
          | None \<Rightarrow>
              ebind (py_contains ''allOf'' schema) (\<lambda>has_all.
                if has_all then convert_all_of rec set_order schema
                else
                  ebind (py_contains ''oneOf'' schema) (\<lambda>has_one.
                    if has_one then convert_one_of schema
                    else convert_plain rec schema)))))"

text \<open>
  The recursion has no guard of its own: a cyclic reference ends in Python's
  \<^verbatim>\<open>RecursionError\<close> when the call stack is used up. The first argument is the number of
  nested calls the stack still has room for.
\<close>

primrec convert_openapi_to_json_schema ::
  "nat \<Rightarrow> (json list \<Rightarrow> json list) \<Rightarrow> json \<Rightarrow> json \<Rightarrow> py_error + json" where
  "convert_openapi_to_json_schema 0 set_order schema components = Inl RecursionError"
| "convert_openapi_to_json_schema (Suc depth) set_order schema components =
     convert_body (\<lambda>s. convert_openapi_to_json_schema depth set_order s components)
       set_order schema components"

section \<open>The catalog builder: \<^verbatim>\<open>generate_tools_from_openapi\<close>\<close>

text \<open>
  \<^verbatim>\<open>Tool\<close> is a class of the MCP library, a validated model. Of its validation the model
  keeps what the builder can trip over: the name must be a string and the description a
  string, otherwise the constructor raises \<^verbatim>\<open>ValidationError\<close>. The input schema is always
  a dict.
\<close>

datatype tool = Tool (tool_name: string) (tool_description: string) (inputSchema: json)





subsection \<open>Writes to the document\<close>



subsection \<open>Parameters\<close>




subsection \<open>Request body\<close>




subsection \<open>One operation, and the two loops\<close>





section \<open>Notions the claims about the resolver use\<close>

text \<open>The \<^verbatim>\<open>$ref\<close> branch is passed: the fragment has no \<^verbatim>\<open>$ref\<close> key, or its reference is
  not one the code follows (another prefix, or a name \<^verbatim>\<open>components.schemas\<close> lacks).\<close>

definition falls_through_ref :: "json \<Rightarrow> json \<Rightarrow> bool" where
  "falls_through_ref schema components =
     (case py_contains ''$ref'' schema of
        Inl e \<Rightarrow> False
      | Inr has_ref \<Rightarrow> \<not> has_ref \<or> ref_target schema components = Inr None)"

text \<open>The three parts of a resolved fragment that the merge reads: its properties (none
  when the key is absent), its required list, its type (\<^verbatim>\<open>None\<close> when absent).\<close>

fun is_str :: "json \<Rightarrow> bool" where
  "is_str (JStr s) = True"
| "is_str _ = False"

definition schema_properties :: "json \<Rightarrow> pydict" where
  "schema_properties c =
     (case c of JDict e \<Rightarrow> (case map_of e ''properties'' of Some (JDict p) \<Rightarrow> p | _ \<Rightarrow> []) | _ \<Rightarrow> [])"

definition schema_required :: "json \<Rightarrow> json list" where
  "schema_required c =
     (case c of JDict e \<Rightarrow> (case map_of e ''required'' of Some (JList rs) \<Rightarrow> rs | _ \<Rightarrow> []) | _ \<Rightarrow> [])"

definition schema_type :: "json \<Rightarrow> json" where
  "schema_type c =
     (case c of JDict e \<Rightarrow> (case map_of e ''type'' of Some t \<Rightarrow> t | None \<Rightarrow> JNull) | _ \<Rightarrow> JNull)"

text \<open>A resolved sub-schema of the expected shape: a mapping whose \<^verbatim>\<open>properties\<close>, if any,
  is a mapping (the keys of a Python dict are distinct) and whose \<^verbatim>\<open>required\<close>, if any, is
  a list of strings.\<close>

definition resolved_object :: "json \<Rightarrow> bool" where
  "resolved_object c =
     (case c of
        JDict e \<Rightarrow>
          (case map_of e ''properties'' of
             None \<Rightarrow> True | Some (JDict p) \<Rightarrow> distinct (map fst p) | Some _ \<Rightarrow> False) \<and>
          (case map_of e ''required'' of
             None \<Rightarrow> True | Some (JList rs) \<Rightarrow> list_all is_str rs | Some _ \<Rightarrow> False)
      | _ \<Rightarrow> False)"

text \<open>The merge in the words of the specification: the first non-empty type, \<^verbatim>\<open>object\<close> when
  there is none; the union of the properties, a later sub-schema overwriting an earlier
  one; the required lists, one after the other.\<close>

definition first_type :: "json list \<Rightarrow> json" where
  "first_type cs = (case filter truthy (map schema_type cs) of [] \<Rightarrow> JStr ''object'' | t # ts \<Rightarrow> t)"

definition merged_properties :: "json list \<Rightarrow> string \<rightharpoonup> json" where
  "merged_properties cs = foldl (\<lambda>m c. m ++ map_of (schema_properties c)) Map.empty cs"

text \<open>What \<^verbatim>\<open>list(set(xs))\<close> guarantees on a list of strings: the same elements, each
  once, in some order.\<close>

definition set_order_law :: "(json list \<Rightarrow> json list) \<Rightarrow> bool" where
  "set_order_law set_order =
     (\<forall>xs. list_all is_str xs \<longrightarrow> distinct (set_order xs) \<and> set (set_order xs) = set xs)"

definition final_type :: "json \<Rightarrow> json" where
  "final_type mt = (if truthy mt then mt else JStr ''object'')"

text \<open>The type the loop holds after the sub-schemas \<open>cs\<close>, started with \<open>mt\<close>.\<close>

definition type_after :: "json \<Rightarrow> json list \<Rightarrow> json \<Rightarrow> bool" where
  "type_after mt cs mt' =
     (if truthy mt then mt' = mt
      else (case filter truthy (map schema_type cs) of
              [] \<Rightarrow> \<not> truthy mt'
            | t # ts \<Rightarrow> mt' = t))"




section \<open>Notions the claims about the catalog use\<close>



section \<open>Concrete inputs\<close>

text \<open>A runtime whose server answers every request with status 204, two environments,
  a small document with one operation that has no \<^verbatim>\<open>operationId\<close>, and two argument
  mappings.\<close>

definition demo_response :: response where
  "demo_response = \<lparr>status_code = 204, resp_headers = [], resp_text = []\<rparr>"

definition demo_runtime :: runtime where
  "demo_runtime =
     \<lparr>send = (\<lambda>rq. Inr demo_response), json_loads = (\<lambda>s. None),
      json_dumps = (\<lambda>ascii j. ''<json>''), str_other = (\<lambda>j. ''<str>''),
      title_search = (\<lambda>s. None)\<rparr>"

definition demo_env :: environ where
  "demo_env = \<lparr>API_USERNAME = ''u'', API_PASSWORD = ''p''\<rparr>"

definition no_password_env :: environ where
  "no_password_env = \<lparr>API_USERNAME = ''u'', API_PASSWORD = []\<rparr>"

definition demo_spec :: json where
  "demo_spec =
     JDict [(''paths'', JDict [
       (''/entries'', JDict [
          (''post'', JDict [(''operationId'', JStr ''entries_create'')])]),
       (''/entries/{id}'', JDict [
          (''delete'', JDict [(''operationId'', JStr ''entries_delete'')]),
          (''get'', JDict [(''summary'', JStr ''read'')])])])]"

definition delete_arguments :: pydict where
  "delete_arguments = [(''path_id'', JStr ''42''), (''body_note'', JStr ''x'')]"


text \<open>Schema fragments: one with both \<^verbatim>\<open>allOf\<close> and \<^verbatim>\<open>oneOf\<close>, one with \<^verbatim>\<open>oneOf\<close> alone.
  \<open>remdups\<close> is one possible order of \<^verbatim>\<open>list(set(xs))\<close>.\<close>

definition integer_alt :: json where
  "integer_alt = JDict [(''type'', JStr ''integer'')]"

definition boolean_alt :: json where
  "boolean_alt = JDict [(''type'', JStr ''boolean'')]"

definition all_and_one_of :: pydict where
  "all_and_one_of =
     [(''allOf'', JList [JDict [(''type'', JStr ''string'')]]),
      (''oneOf'', JList [integer_alt, boolean_alt])]"

definition one_of_only :: pydict where
  "one_of_only = [(''oneOf'', JList [integer_alt, boolean_alt])]"

text \<open>A fragment with both a reference that resolves and \<^verbatim>\<open>oneOf\<close>, with the components it
  refers to.\<close>

definition string_schema :: json where
  "string_schema = JDict [(''type'', JStr ''string'')]"

definition demo_components :: json where
  "demo_components = JDict [(''schemas'', JDict [(''Base'', string_schema)])]"

definition ref_and_one_of :: pydict where
  "ref_and_one_of =
     [(''$ref'', JStr ''#/components/schemas/Base''),
      (''oneOf'', JList [integer_alt, boolean_alt])]"

text \<open>Two object schemas that both declare \<^verbatim>\<open>name\<close>, a fragment that is their \<^verbatim>\<open>allOf\<close>, and
  the same fragment with a reference that resolves.\<close>

definition named_part :: json where
  "named_part =
     JDict [(''type'', JStr ''object''),
            (''properties'', JDict [(''name'', JDict [(''type'', JStr ''string'')])]),
            (''required'', JList [JStr ''name''])]"

definition amount_part :: json where
  "amount_part =
     JDict [(''properties'', JDict [(''amount'', JDict [(''type'', JStr ''integer'')]),
                                     (''name'', JDict [(''type'', JStr ''integer'')])]),
            (''required'', JList [JStr ''amount'', JStr ''name''])]"

definition all_of_parts :: pydict where
  "all_of_parts = [(''allOf'', JList [named_part, amount_part])]"

definition ref_and_all_of :: pydict where
  "ref_and_all_of =
     [(''$ref'', JStr ''#/components/schemas/Base''),
      (''allOf'', JList [named_part, amount_part])]"



















section \<open>Properties of the dispatcher\<close>

subsection \<open>Credentials\<close>

lemma b64_bytes_nonempty: "bs \<noteq> [] \<Longrightarrow> b64_bytes bs \<noteq> []"
  by (cases bs rule: b64_bytes.cases) simp_all

lemma encode_nonempty: "s \<noteq> [] \<Longrightarrow> encode s \<noteq> []"
  by (cases s) (simp_all add: encode_def utf8_char_def Let_def)

lemma get_auth_header_empty:
  "get_auth_header env = [] \<longleftrightarrow> API_USERNAME env = [] \<or> API_PASSWORD env = []"
proof -
  have "encode (API_USERNAME env @ '':'' @ API_PASSWORD env) \<noteq> []"
    by (rule encode_nonempty) simp
  then have "b64encode (encode (API_USERNAME env @ '':'' @ API_PASSWORD env)) \<noteq> []"
    unfolding b64encode_def by (rule b64_bytes_nonempty)
  then show ?thesis by (simp add: get_auth_header_def)
qed

text \<open>
  Claim C1. When the username or the password is absent or empty, \<open>call_tool\<close> returns
  the missing-credentials message for every document, tool name and argument mapping,
  and has sent no request.
\<close>

theorem C1_missing_credentials_no_request:
  assumes "API_USERNAME env = [] \<or> API_PASSWORD env = []"
  shows "call_tool rt env openapi_spec name arguments = (Inr missing_credentials, [])"
  using assms by (simp add: call_tool_def get_auth_header_empty)

theorem C1_missing_credentials_witness:
  "(API_USERNAME no_password_env = [] \<or> API_PASSWORD no_password_env = []) \<and>
   call_tool demo_runtime no_password_env demo_spec (JStr ''entries_delete'') [(''path_id'', JStr ''42'')]
     = (Inr missing_credentials, [])"
proof -
  have h: "API_USERNAME no_password_env = [] \<or> API_PASSWORD no_password_env = []"
    by (simp add: no_password_env_def)
  from h C1_missing_credentials_no_request [OF h] show ?thesis by simp
qed

subsection \<open>Lookup\<close>















subsection \<open>The request and its body\<close>

lemma call_tool_cases:
  assumes "req \<in> set (snd (call_tool rt env spec name args))"
  shows "\<exists>path method operation.
     lookup_operation spec name = Inr (Some (path, method, operation)) \<and>
     build_request method (API_BASE_URL @ substitute_path rt path (fst (split_arguments args)))
        (base_headers (get_auth_header env)) (fst (snd (split_arguments args)))
        (body_fields args) = Some req \<and>
     call_tool rt env spec name args = (Inr [handle_outcome rt (send rt req)], [req])"
  using assms unfolding call_tool_def body_fields_def
  by (auto simp: Let_def split: sum.splits option.splits prod.splits if_splits)








subsection \<open>Status 204\<close>

lemma handle_outcome_204:
  "status_code resp = 204 \<Longrightarrow>
   handle_outcome rt (Inr resp) = TextContent (json_dumps rt False no_content_payload)"
  by (simp add: handle_outcome_def is_success_def success_text_def)

text \<open>
  Claim C8. When the response to the request of a dispatch has status 204, the result is
  the text of exactly the payload \<^verbatim>\<open>{status: success, message: Resource deleted or no
  content returned}\<close>, as \<^verbatim>\<open>json.dumps\<close> prints it.
\<close>

theorem C8_no_content_payload:
  assumes "req \<in> set (snd (call_tool rt env openapi_spec name arguments))"
    and "send rt req = Inr resp"
    and "status_code resp = 204"
  shows "fst (call_tool rt env openapi_spec name arguments)
           = Inr [TextContent (json_dumps rt False no_content_payload)]"
proof -
  from call_tool_cases [OF assms(1)]
  have "fst (call_tool rt env openapi_spec name arguments) = Inr [handle_outcome rt (send rt req)]"
    by auto
  with assms(2,3) show ?thesis by (simp add: handle_outcome_204)
qed

theorem C8_no_content_payload_witness:
  "hd (snd (call_tool demo_runtime demo_env demo_spec (JStr ''entries_delete'') delete_arguments))
     \<in> set (snd (call_tool demo_runtime demo_env demo_spec (JStr ''entries_delete'') delete_arguments)) \<and>
   send demo_runtime (hd (snd (call_tool demo_runtime demo_env demo_spec (JStr ''entries_delete'') delete_arguments)))
     = Inr demo_response \<and>
   status_code demo_response = 204 \<and>
   fst (call_tool demo_runtime demo_env demo_spec (JStr ''entries_delete'') delete_arguments)
     = Inr [TextContent (json_dumps demo_runtime False no_content_payload)]"
proof -
  let ?reqs = "snd (call_tool demo_runtime demo_env demo_spec (JStr ''entries_delete'') delete_arguments)"
  have h1: "hd ?reqs \<in> set ?reqs" by code_simp
  have h2: "send demo_runtime (hd ?reqs) = Inr demo_response" by (simp add: demo_runtime_def)
  have h3: "status_code demo_response = 204" by (simp add: demo_response_def)
  from h1 h2 h3 C8_no_content_payload [OF h1 h2 h3] show ?thesis by simp
qed

subsection \<open>Argument splitting\<close>

lemma startswith_drop: "startswith s p \<Longrightarrow> n = length p \<Longrightarrow> p @ drop n s = s"
  unfolding startswith_def by (metis append_take_drop_id)

lemma image_prefix_update:
  "(\<lambda>kv. pre @ fst kv) ` set (AList.update k v al)
     = insert (pre @ k) ((\<lambda>kv. pre @ fst kv) ` set al)"
  by (induction al) auto

lemma set_renamespaced_step:
  "set (renamespaced_keys (split_step kv acc)) =
     set (renamespaced_keys acc) \<union> (if namespaced (fst kv) then {fst kv} else {})"
proof -
  obtain pp qp bd where acc: "acc = (pp, qp, bd)" by (cases acc)
  have p: "startswith (fst kv) ''path_'' \<Longrightarrow> ''path_'' @ drop 5 (fst kv) = fst kv"
    by (rule startswith_drop) simp_all
  have q: "startswith (fst kv) ''query_'' \<Longrightarrow> ''query_'' @ drop 6 (fst kv) = fst kv"
    by (rule startswith_drop) simp_all
  have b: "startswith (fst kv) ''body_'' \<Longrightarrow> ''body_'' @ drop 5 (fst kv) = fst kv"
    by (rule startswith_drop) simp_all
  show ?thesis
    unfolding acc split_step_def renamespaced_keys_def namespaced_def Let_def
    using p q b by (auto simp: image_prefix_update simp del: append.simps)
qed

lemma set_renamespaced_fold:
  "set (renamespaced_keys (fold split_step args acc)) =
     set (renamespaced_keys acc) \<union> {k \<in> fst ` set args. namespaced k}"
proof (induction args arbitrary: acc)
  case Nil
  then show ?case by simp
next
  case (Cons kv args)
  show ?case
    by (simp add: Cons.IH set_renamespaced_step) auto
qed

text \<open>
  Claim C6, as stated, fails: a key without one of the three prefixes lands in no
  bucket, so re-namespacing cannot bring it back.
\<close>

theorem C6_unprefixed_key_lost_counterexample:
  "set (renamespaced_keys (split_arguments [(''limit'', JInt 5)])) = {} \<and>
   set (renamespaced_keys (split_arguments [(''limit'', JInt 5)])) \<noteq> fst ` set [(''limit'', JInt 5)]"
  by code_simp

text \<open>
  Claim C6, amended. Splitting and re-namespacing recovers exactly the argument keys
  that carry one of the prefixes \<^verbatim>\<open>path_\<close>, \<^verbatim>\<open>query_\<close>, \<^verbatim>\<open>body_\<close>; every other key is
  dropped.
\<close>

theorem C6_roundtrip_of_namespaced_keys:
  "set (renamespaced_keys (split_arguments arguments)) = {k \<in> fst ` set arguments. namespaced k}"
  by (simp add: split_arguments_def set_renamespaced_fold) (simp add: renamespaced_keys_def)

section \<open>Properties of the schema resolver\<close>

lemma ebind_Inr [simp]: "ebind (Inr x) f = f x"
  by (simp add: ebind_def)

lemma ebind_Inl [simp]: "ebind (Inl e) f = Inl e"
  by (simp add: ebind_def)


lemma map_of_update_other: "k' \<noteq> k \<Longrightarrow> map_of (AList.update k v d) k' = map_of d k'"
  by (simp add: update_conv')

lemma keys_update_present: "k \<in> fst ` set d \<Longrightarrow> fst ` set (AList.update k v d) = fst ` set d"
  by (auto simp: dom_update)

lemma map_of_Some_key: "map_of d k = Some v \<Longrightarrow> k \<in> fst ` set d"
  by (metis domI dom_map_of_conv_image_fst)

subsection \<open>\<^verbatim>\<open>oneOf\<close>\<close>

lemma one_of_first:
  assumes "map_of d ''oneOf'' = Some (JList (alt # rest))"
    and "''allOf'' \<notin> fst ` set d"
    and "falls_through_ref (JDict d) components"
  shows "convert_openapi_to_json_schema (Suc depth) set_order (JDict d) components = Inr alt"
proof -
  from assms(1) have ne: "d \<noteq> []" by auto
  from assms(1) have k: "''oneOf'' \<in> fst ` set d" by (rule map_of_Some_key)
  from assms(3)
  have r: "(if ''$ref'' \<in> fst ` set d then ref_target (JDict d) components else Inr None) = Inr None"
    by (auto simp: falls_through_ref_def)
  show ?thesis
    using ne k assms(1,2) r by (simp add: convert_body_def convert_one_of_def)
qed

lemma one_of_rest_irrelevant:
  assumes "map_of d ''oneOf'' = Some (JList (alt # rest))"
  shows "convert_openapi_to_json_schema depth set_order
           (JDict (AList.update ''oneOf'' (JList (alt # rest')) d)) components
       = convert_openapi_to_json_schema depth set_order (JDict d) components"
proof (cases depth)
  case 0
  then show ?thesis by simp
next
  case (Suc n)
  let ?d' = "AList.update ''oneOf'' (JList (alt # rest')) d"
  from assms have ne: "d \<noteq> []" by auto
  then have ne': "?d' \<noteq> []" by (cases d) auto
  from assms have k: "''oneOf'' \<in> fst ` set d" by (rule map_of_Some_key)
  have keys: "fst ` set ?d' = fst ` set d" using k by (rule keys_update_present)
  have rt: "ref_target (JDict ?d') components = ref_target (JDict d) components"
    by (simp add: ref_target_def map_of_update_other)
  have ao: "convert_all_of rec set_order (JDict ?d') = convert_all_of rec set_order (JDict d)" for rec
    by (simp add: convert_all_of_def map_of_update_other)
  have oo: "convert_one_of (JDict ?d') = convert_one_of (JDict d)"
    using assms by (simp add: convert_one_of_def update_conv')
  show ?thesis
    using ne ne' k by (simp add: Suc convert_body_def keys rt ao oo)
qed

lemma map_of_delete_other: "k' \<noteq> k \<Longrightarrow> map_of (AList.delete k d) k' = map_of d k'"
  by (simp add: delete_conv')

lemma keys_delete: "fst ` set (AList.delete k d) = fst ` set d - {k}"
  by (induction d) auto

lemma ref_target_key:
  assumes "ref_target (JDict d) components = Inr (Some t)"
  shows "''$ref'' \<in> fst ` set d"
proof -
  from assms obtain r where "map_of d ''$ref'' = Some r"
    by (cases "map_of d ''$ref''") (auto simp: ref_target_def)
  then show ?thesis by (rule map_of_Some_key)
qed

lemma ref_first:
  assumes "ref_target (JDict d) components = Inr (Some t)"
  shows "convert_openapi_to_json_schema (Suc depth) set_order (JDict d) components
       = convert_openapi_to_json_schema depth set_order t components"
proof -
  from ref_target_key [OF assms] have k: "''$ref'' \<in> fst ` set d" .
  then have ne: "d \<noteq> []" by auto
  show ?thesis using ne k assms by (simp add: convert_body_def)
qed

lemma all_of_second:
  assumes "falls_through_ref (JDict d) components"
    and "''allOf'' \<in> fst ` set d"
  shows "convert_openapi_to_json_schema (Suc depth) set_order (JDict d) components
       = convert_all_of (\<lambda>s. convert_openapi_to_json_schema depth set_order s components)
           set_order (JDict d)"
proof -
  from assms(2) have ne: "d \<noteq> []" by auto
  from assms(1)
  have r: "(if ''$ref'' \<in> fst ` set d then ref_target (JDict d) components else Inr None) = Inr None"
    by (auto simp: falls_through_ref_def)
  show ?thesis using ne assms(2) r by (simp add: convert_body_def)
qed

lemma ref_target_delete:
  "ref_target (JDict (AList.delete ''oneOf'' d)) components = ref_target (JDict d) components"
  by (simp add: ref_target_def map_of_delete_other)

lemma falls_through_ref_delete:
  "falls_through_ref (JDict (AList.delete ''oneOf'' d)) components
     = falls_through_ref (JDict d) components"
  by (simp add: falls_through_ref_def keys_delete ref_target_delete)

lemma convert_all_of_delete:
  "convert_all_of rec set_order (JDict (AList.delete ''oneOf'' d))
     = convert_all_of rec set_order (JDict d)"
  by (simp add: convert_all_of_def map_of_delete_other)

lemma one_of_ignored_after_ref:
  assumes "ref_target (JDict d) components = Inr (Some t)"
  shows "convert_openapi_to_json_schema (Suc depth) set_order (JDict (AList.delete ''oneOf'' d)) components
       = convert_openapi_to_json_schema (Suc depth) set_order (JDict d) components"
proof -
  from assms have "ref_target (JDict (AList.delete ''oneOf'' d)) components = Inr (Some t)"
    by (simp add: ref_target_delete)
  from ref_first [OF this] ref_first [OF assms] show ?thesis by simp
qed

lemma one_of_ignored_after_all_of:
  assumes "falls_through_ref (JDict d) components"
    and "''allOf'' \<in> fst ` set d"
  shows "convert_openapi_to_json_schema (Suc depth) set_order (JDict (AList.delete ''oneOf'' d)) components
       = convert_openapi_to_json_schema (Suc depth) set_order (JDict d) components"
proof -
  from assms(1) have f: "falls_through_ref (JDict (AList.delete ''oneOf'' d)) components"
    by (simp add: falls_through_ref_delete)
  from assms(2) have k: "''allOf'' \<in> fst ` set (AList.delete ''oneOf'' d)"
    by (simp add: keys_delete)
  from all_of_second [OF f k] all_of_second [OF assms] show ?thesis
    by (simp add: convert_all_of_delete)
qed

text \<open>
  Claim C9, as stated, fails: the \<^verbatim>\<open>allOf\<close> test comes before the \<^verbatim>\<open>oneOf\<close> test. A
  fragment with both keys resolves to the merge of its \<^verbatim>\<open>allOf\<close> list, not to its first
  \<^verbatim>\<open>oneOf\<close> alternative.
\<close>

theorem C9_all_of_wins_counterexample:
  "map_of all_and_one_of ''oneOf'' = Some (JList [integer_alt, boolean_alt]) \<and>
   convert_openapi_to_json_schema 5 remdups (JDict all_and_one_of) (JDict [])
     = Inr (JDict [(''type'', JStr ''string'')]) \<and>
   convert_openapi_to_json_schema 5 remdups (JDict all_and_one_of) (JDict []) \<noteq> Inr integer_alt"
  by code_simp

text \<open>
  Claim C9, amended. For a fragment whose \<^verbatim>\<open>oneOf\<close> is a non-empty list: the alternatives
  after the first never influence the result; and when the fragment has no \<^verbatim>\<open>allOf\<close> key
  and the \<^verbatim>\<open>$ref\<close> branch is passed, the result is the first alternative, as it stands in
  the document. A reference that resolves takes precedence: the result is the
  resolution of its target. After the \<^verbatim>\<open>$ref\<close> branch is passed, an \<^verbatim>\<open>allOf\<close> key takes
  precedence: the result is the merge of the \<^verbatim>\<open>allOf\<close> list. In both cases the result is
  what the fragment gives without its \<^verbatim>\<open>oneOf\<close> key.
\<close>

theorem C9_first_alternative_only:
  assumes "map_of d ''oneOf'' = Some (JList (alt # rest))"
  shows "convert_openapi_to_json_schema depth set_order
           (JDict (AList.update ''oneOf'' (JList (alt # rest')) d)) components
         = convert_openapi_to_json_schema depth set_order (JDict d) components \<and>
         (''allOf'' \<notin> fst ` set d \<and> falls_through_ref (JDict d) components \<longrightarrow>
            convert_openapi_to_json_schema (Suc depth) set_order (JDict d) components = Inr alt) \<and>
         (ref_target (JDict d) components = Inr (Some target) \<longrightarrow>
            convert_openapi_to_json_schema (Suc depth) set_order (JDict d) components
              = convert_openapi_to_json_schema depth set_order target components \<and>
            convert_openapi_to_json_schema (Suc depth) set_order (JDict d) components
              = convert_openapi_to_json_schema (Suc depth) set_order
                  (JDict (AList.delete ''oneOf'' d)) components) \<and>
         (falls_through_ref (JDict d) components \<and> ''allOf'' \<in> fst ` set d \<longrightarrow>
            convert_openapi_to_json_schema (Suc depth) set_order (JDict d) components
              = convert_all_of (\<lambda>s. convert_openapi_to_json_schema depth set_order s components)
                  set_order (JDict d) \<and>
            convert_openapi_to_json_schema (Suc depth) set_order (JDict d) components
              = convert_openapi_to_json_schema (Suc depth) set_order
                  (JDict (AList.delete ''oneOf'' d)) components)"
  using one_of_first [OF assms] one_of_rest_irrelevant [OF assms]
    ref_first one_of_ignored_after_ref all_of_second one_of_ignored_after_all_of
  by presburger

theorem C9_first_alternative_only_witness:
  "map_of one_of_only ''oneOf'' = Some (JList (integer_alt # [boolean_alt])) \<and>
   ''allOf'' \<notin> fst ` set one_of_only \<and>
   falls_through_ref (JDict one_of_only) (JDict []) \<and>
   convert_openapi_to_json_schema (Suc (Suc 0)) remdups (JDict one_of_only) (JDict []) = Inr integer_alt \<and>
   convert_openapi_to_json_schema (Suc 0) remdups
     (JDict (AList.update ''oneOf'' (JList (integer_alt # [JNull])) one_of_only)) (JDict [])
     = convert_openapi_to_json_schema (Suc 0) remdups (JDict one_of_only) (JDict []) \<and>
   map_of ref_and_one_of ''oneOf'' = Some (JList (integer_alt # [boolean_alt])) \<and>
   ref_target (JDict ref_and_one_of) demo_components = Inr (Some string_schema) \<and>
   convert_openapi_to_json_schema (Suc (Suc 0)) remdups (JDict ref_and_one_of) demo_components
     = Inr string_schema \<and>
   map_of all_and_one_of ''oneOf'' = Some (JList (integer_alt # [boolean_alt])) \<and>
   falls_through_ref (JDict all_and_one_of) (JDict []) \<and>
   ''allOf'' \<in> fst ` set all_and_one_of \<and>
   convert_openapi_to_json_schema (Suc (Suc 0)) remdups (JDict all_and_one_of) (JDict [])
     = convert_openapi_to_json_schema (Suc (Suc 0)) remdups
         (JDict (AList.delete ''oneOf'' all_and_one_of)) (JDict [])"
proof -
  have h1: "map_of one_of_only ''oneOf'' = Some (JList (integer_alt # [boolean_alt]))"
    by (simp add: one_of_only_def)
  have h2: "''allOf'' \<notin> fst ` set one_of_only"
    by (simp add: one_of_only_def)
  have h3: "falls_through_ref (JDict one_of_only) (JDict [])"
    by (simp add: falls_through_ref_def one_of_only_def)
  have r1: "map_of ref_and_one_of ''oneOf'' = Some (JList (integer_alt # [boolean_alt]))"
    by (simp add: ref_and_one_of_def)
  have r2: "ref_target (JDict ref_and_one_of) demo_components = Inr (Some string_schema)"
    by code_simp
  have r3: "convert_openapi_to_json_schema (Suc 0) remdups string_schema demo_components
      = Inr string_schema"
    by code_simp
  have a1: "map_of all_and_one_of ''oneOf'' = Some (JList (integer_alt # [boolean_alt]))"
    by (simp add: all_and_one_of_def)
  have a2: "falls_through_ref (JDict all_and_one_of) (JDict [])"
    by (simp add: falls_through_ref_def all_and_one_of_def)
  have a3: "''allOf'' \<in> fst ` set all_and_one_of"
    by (simp add: all_and_one_of_def)
  note t1 = C9_first_alternative_only [OF h1, of "Suc 0" remdups "[JNull]" "JDict []"]
  from t1 h2 h3
  have c1: "convert_openapi_to_json_schema (Suc (Suc 0)) remdups (JDict one_of_only) (JDict [])
      = Inr integer_alt"
    by blast
  from t1
  have c2: "convert_openapi_to_json_schema (Suc 0) remdups
     (JDict (AList.update ''oneOf'' (JList (integer_alt # [JNull])) one_of_only)) (JDict [])
     = convert_openapi_to_json_schema (Suc 0) remdups (JDict one_of_only) (JDict [])"
    by blast
  note t2 = C9_first_alternative_only [OF r1, of "Suc 0" remdups "[]" demo_components string_schema]
  from t2 r2
  have "convert_openapi_to_json_schema (Suc (Suc 0)) remdups (JDict ref_and_one_of) demo_components
      = convert_openapi_to_json_schema (Suc 0) remdups string_schema demo_components"
    by blast
  with r3
  have c3: "convert_openapi_to_json_schema (Suc (Suc 0)) remdups (JDict ref_and_one_of) demo_components
      = Inr string_schema"
    by (simp only:)
  note t3 = C9_first_alternative_only [OF a1, of "Suc 0" remdups "[]" "JDict []"]
  from t3 a2 a3
  have c4: "convert_openapi_to_json_schema (Suc (Suc 0)) remdups (JDict all_and_one_of) (JDict [])
     = convert_openapi_to_json_schema (Suc (Suc 0)) remdups
         (JDict (AList.delete ''oneOf'' all_and_one_of)) (JDict [])"
    by blast
  from h1 h2 h3 c1 c2 r1 r2 c3 a1 a2 a3 c4 show ?thesis by blast
qed


subsection \<open>\<^verbatim>\<open>allOf\<close>\<close>

lemma fold_update_map_of:
  "distinct (map fst e) \<Longrightarrow>
   map_of (fold (\<lambda>kv acc. AList.update (fst kv) (snd kv) acc) e d) = map_of d ++ map_of e"
proof (induction e arbitrary: d)
  case Nil
  then show ?case by simp
next
  case (Cons kv e)
  obtain k v where kv: "kv = (k, v)" by (cases kv)
  from Cons.prems kv have nk: "map_of e k = None" and de: "distinct (map fst e)"
    by (auto simp: map_of_eq_None_iff)
  have u: "map_of (AList.update k v d) = (map_of d)(k \<mapsto> v)"
    by (rule update_conv')
  have "map_of (fold (\<lambda>kv acc. AList.update (fst kv) (snd kv) acc) (kv # e) d)
        = map_of (AList.update k v d) ++ map_of e"
    using Cons.IH [OF de] kv by simp
  also have "\<dots> = (map_of d)(k \<mapsto> v) ++ map_of e"
    by (simp only: u)
  also have "\<dots> = map_of d ++ map_of (kv # e)"
  proof
    fix x
    show "((map_of d)(k \<mapsto> v) ++ map_of e) x = (map_of d ++ map_of (kv # e)) x"
      using nk kv by (cases "map_of e x") (auto simp: map_add_def)
  qed
  finally show ?case .
qed

lemma fold_update_nonempty:
  "d \<noteq> [] \<or> e \<noteq> [] \<Longrightarrow> fold (\<lambda>kv acc. AList.update (fst kv) (snd kv) acc) e d \<noteq> []"
proof (induction e arbitrary: d)
  case Nil
  then show ?case by simp
next
  case (Cons kv e)
  have "AList.update (fst kv) (snd kv) d \<noteq> []" by (cases d) auto
  then show ?case using Cons.IH by simp
qed

lemma fold_update_empty:
  "fold (\<lambda>kv acc. AList.update (fst kv) (snd kv) acc) e d = [] \<longleftrightarrow> d = [] \<and> e = []"
  using fold_update_nonempty [of d e] by (cases e) auto

lemma merge_converted_object:
  assumes "resolved_object c"
  shows "\<exists>mp' mt'. merge_converted c (mp, mr, mt) = Inr (mp', mr @ schema_required c, mt') \<and>
     map_of mp' = map_of mp ++ map_of (schema_properties c) \<and>
     (mp' = [] \<longleftrightarrow> mp = [] \<and> schema_properties c = []) \<and>
     type_after mt [c] mt'"
proof -
  from assms obtain e where c: "c = JDict e" by (cases c) (auto simp: resolved_object_def)
  have P: "\<exists>mp'. (if ''properties'' \<in> fst ` set e
             then ebind (py_getitem c ''properties'') (py_dict_update mp)
             else Inr mp) = Inr mp' \<and>
           map_of mp' = map_of mp ++ map_of (schema_properties c) \<and>
           (mp' = [] \<longleftrightarrow> mp = [] \<and> schema_properties c = [])"
  proof (cases "map_of e ''properties''")
    case None
    then have "''properties'' \<notin> fst ` set e" by (simp add: map_of_eq_None_iff)
    with None c show ?thesis by (simp add: schema_properties_def)
  next
    case (Some pv)
    then have k: "''properties'' \<in> fst ` set e" by (rule map_of_Some_key)
    from assms c Some obtain p where p: "pv = JDict p" "distinct (map fst p)"
      by (cases pv) (auto simp: resolved_object_def)
    from c Some p have sp: "schema_properties c = p" by (simp add: schema_properties_def)
    show ?thesis using k c Some p sp
      by (simp add: fold_update_map_of fold_update_empty)
  qed
  have R: "(if ''required'' \<in> fst ` set e
             then ebind (py_getitem c ''required'') (\<lambda>rq.
                  ebind (py_iter rq) (\<lambda>rs. Inr (mr @ rs)))
             else Inr mr) = Inr (mr @ schema_required c)"
  proof (cases "map_of e ''required''")
    case None
    then have "''required'' \<notin> fst ` set e" by (simp add: map_of_eq_None_iff)
    with None c show ?thesis by (simp add: schema_required_def)
  next
    case (Some rv)
    then have k: "''required'' \<in> fst ` set e" by (rule map_of_Some_key)
    from assms c Some obtain rs where rs: "rv = JList rs"
      by (cases rv) (auto simp: resolved_object_def)
    show ?thesis using k c Some rs by (simp add: schema_required_def)
  qed
  have T: "\<exists>mt'. (if ''type'' \<in> fst ` set e \<and> \<not> truthy mt
             then py_getitem c ''type'' else Inr mt) = Inr mt' \<and>
           type_after mt [c] mt'"
  proof (cases "map_of e ''type''")
    case None
    then have "''type'' \<notin> fst ` set e" by (simp add: map_of_eq_None_iff)
    with None c show ?thesis by (simp add: schema_type_def type_after_def)
  next
    case (Some tv)
    then have k: "''type'' \<in> fst ` set e" by (rule map_of_Some_key)
    show ?thesis using k c Some by (simp add: schema_type_def type_after_def)
  qed
  from P obtain mp' where mp': "(if ''properties'' \<in> fst ` set e
             then ebind (py_getitem c ''properties'') (py_dict_update mp)
             else Inr mp) = Inr mp'"
     "map_of mp' = map_of mp ++ map_of (schema_properties c)"
     "(mp' = [] \<longleftrightarrow> mp = [] \<and> schema_properties c = [])"
    by blast
  from T obtain mt' where mt': "(if ''type'' \<in> fst ` set e \<and> \<not> truthy mt
             then py_getitem c ''type'' else Inr mt) = Inr mt'"
     "type_after mt [c] mt'"
    by blast
  have "merge_converted c (mp, mr, mt) = Inr (mp', mr @ schema_required c, mt')"
    unfolding merge_converted_def using c mp'(1) R mt'(1) by simp
  with mp'(2,3) mt'(2) show ?thesis by blast
qed

lemma type_after_step:
  assumes "type_after mt [c] mt1" and "type_after mt1 cs mt'"
  shows "type_after mt (c # cs) mt'"
  using assms by (auto simp: type_after_def split: if_splits list.splits)

lemma all_of_loop_objects:
  assumes "list_all2 (\<lambda>s c. rec s = Inr c) subs cs"
    and "list_all resolved_object cs"
  shows "\<exists>mp' mt'.
     all_of_loop rec subs (mp, mr, mt) = Inr (mp', mr @ concat (map schema_required cs), mt') \<and>
     map_of mp' = foldl (\<lambda>m c. m ++ map_of (schema_properties c)) (map_of mp) cs \<and>
     (mp' = [] \<longleftrightarrow> mp = [] \<and> list_all (\<lambda>c. schema_properties c = []) cs) \<and>
     type_after mt cs mt'"
  using assms
proof (induction subs cs arbitrary: mp mr mt rule: list_all2_induct)
  case Nil
  then show ?case by (simp add: type_after_def)
next
  case (Cons s subs c cs)
  from Cons.prems have ro: "resolved_object c" and rest: "list_all resolved_object cs" by simp_all
  from merge_converted_object [OF ro, of mp mr mt] obtain mp1 mt1 where
    m: "merge_converted c (mp, mr, mt) = Inr (mp1, mr @ schema_required c, mt1)"
       "map_of mp1 = map_of mp ++ map_of (schema_properties c)"
       "(mp1 = [] \<longleftrightarrow> mp = [] \<and> schema_properties c = [])"
       "type_after mt [c] mt1"
    by blast
  from Cons.IH [OF rest, of mp1 "mr @ schema_required c" mt1] obtain mp' mt' where
    l: "all_of_loop rec subs (mp1, mr @ schema_required c, mt1)
          = Inr (mp', (mr @ schema_required c) @ concat (map schema_required cs), mt')"
       "map_of mp' = foldl (\<lambda>m c. m ++ map_of (schema_properties c)) (map_of mp1) cs"
       "(mp' = [] \<longleftrightarrow> mp1 = [] \<and> list_all (\<lambda>c. schema_properties c = []) cs)"
       "type_after mt1 cs mt'"
    by blast
  have "all_of_loop rec (s # subs) (mp, mr, mt)
      = Inr (mp', mr @ concat (map schema_required (c # cs)), mt')"
    using Cons.hyps(1) m(1) l(1) by simp
  moreover have "map_of mp' = foldl (\<lambda>m c. m ++ map_of (schema_properties c)) (map_of mp) (c # cs)"
    using l(2) m(2) by simp
  moreover have "(mp' = [] \<longleftrightarrow> mp = [] \<and> list_all (\<lambda>c. schema_properties c = []) (c # cs))"
    using l(3) m(3) by auto
  moreover have "type_after mt (c # cs) mt'"
    using m(4) l(4) by (rule type_after_step)
  ultimately show ?case by blast
qed

lemma all_of_result_object:
  assumes "list_all is_str mr" and "set_order_law set_order"
  shows "\<exists>r. all_of_result set_order (mp, mr, mt) = Inr r \<and>
     schema_properties r = mp \<and>
     set (schema_required r) = set mr \<and> distinct (schema_required r) \<and>
     schema_type r = final_type mt"
proof -
  let ?r1 = "[(''type'', if truthy mt then mt else JStr ''object'')]"
  let ?r2 = "if mp \<noteq> [] then AList.update ''properties'' (JDict mp) ?r1 else ?r1"
  have p2: "(case map_of ?r2 ''properties'' of Some (JDict p) \<Rightarrow> p | _ \<Rightarrow> []) = mp"
    by (simp add: update_conv')
  have t2: "map_of ?r2 ''type'' = Some (final_type mt)"
    by (simp add: update_conv' final_type_def)
  have q2: "map_of ?r2 ''required'' = None"
    by (simp add: update_conv')
  show ?thesis
  proof (cases "mr = []")
    case True
    then have "all_of_result set_order (mp, mr, mt) = Inr (JDict ?r2)"
      by (simp add: all_of_result_def Let_def)
    moreover have "schema_properties (JDict ?r2) = mp"
      using p2 by (simp add: schema_properties_def)
    moreover have "schema_required (JDict ?r2) = []"
      using q2 by (simp add: schema_required_def)
    moreover have "schema_type (JDict ?r2) = final_type mt"
      using t2 by (simp add: schema_type_def)
    ultimately show ?thesis using True by simp
  next
    case False
    from assms(1) have h: "list_all hashable mr"
      by (induction mr) (auto elim: is_str.elims)
    let ?rs = "set_order mr"
    let ?r3 = "AList.update ''required'' (JList ?rs) ?r2"
    from assms have so: "distinct ?rs" "set ?rs = set mr"
      by (auto simp: set_order_law_def)
    have "all_of_result set_order (mp, mr, mt) = Inr (JDict ?r3)"
      using False h by (simp add: all_of_result_def Let_def py_list_set_def)
    moreover have "schema_properties (JDict ?r3) = mp"
      using p2 by (simp add: schema_properties_def update_conv')
    moreover have "schema_required (JDict ?r3) = ?rs"
      by (simp add: schema_required_def update_conv')
    moreover have "schema_type (JDict ?r3) = final_type mt"
      using t2 by (simp add: schema_type_def update_conv')
    ultimately show ?thesis using so by simp
  qed
qed

lemma type_after_final: "type_after JNull cs mt' \<Longrightarrow> final_type mt' = first_type cs"
  by (auto simp: type_after_def final_type_def first_type_def split: list.splits dest: filter_eq_ConsD)

lemma required_strings:
  "list_all resolved_object cs \<Longrightarrow> list_all is_str (concat (map schema_required cs))"
proof (induction cs)
  case Nil
  then show ?case by simp
next
  case (Cons c cs)
  from Cons.prems have "list_all is_str (schema_required c)"
    by (auto simp: resolved_object_def schema_required_def split: json.splits option.splits)
  with Cons show ?case by simp
qed

lemma set_order_law_remdups: "set_order_law remdups"
  by (simp add: set_order_law_def)

lemma convert_all_of_objects:
  assumes "map_of d ''allOf'' = Some (JList subs)"
    and "falls_through_ref (JDict d) components"
    and "list_all2 (\<lambda>s c. convert_openapi_to_json_schema depth set_order s components = Inr c) subs cs"
    and "list_all resolved_object cs"
    and "set_order_law set_order"
  shows "\<exists>r. convert_openapi_to_json_schema (Suc depth) set_order (JDict d) components = Inr r \<and>
     map_of (schema_properties r) = merged_properties cs \<and>
     set (schema_required r) = set (concat (map schema_required cs)) \<and>
     distinct (schema_required r) \<and>
     schema_type r = first_type cs"
proof -
  let ?rec = "\<lambda>s. convert_openapi_to_json_schema depth set_order s components"
  from assms(1) have k: "''allOf'' \<in> fst ` set d" by (rule map_of_Some_key)
  from all_of_second [OF assms(2) k]
  have c: "convert_openapi_to_json_schema (Suc depth) set_order (JDict d) components
      = convert_all_of ?rec set_order (JDict d)" .
  from all_of_loop_objects [OF assms(3,4), of "[]" "[]" JNull] obtain mp' mt' where
    l: "all_of_loop ?rec subs ([], [], JNull) = Inr (mp', concat (map schema_required cs), mt')"
       "map_of mp' = foldl (\<lambda>m c. m ++ map_of (schema_properties c)) (map_of []) cs"
       "type_after JNull cs mt'"
    by auto
  from all_of_result_object [OF required_strings [OF assms(4)] assms(5), of mp' mt'] obtain r where
    r: "all_of_result set_order (mp', concat (map schema_required cs), mt') = Inr r"
       "schema_properties r = mp'"
       "set (schema_required r) = set (concat (map schema_required cs))"
       "distinct (schema_required r)"
       "schema_type r = final_type mt'"
    by blast
  have "convert_all_of ?rec set_order (JDict d) = Inr r"
    using assms(1) l(1) r(1) by (simp add: convert_all_of_def)
  with c have "convert_openapi_to_json_schema (Suc depth) set_order (JDict d) components = Inr r"
    by simp
  moreover have "map_of (schema_properties r) = merged_properties cs"
    using r(2) l(2) by (simp add: merged_properties_def)
  moreover have "schema_type r = first_type cs"
    using r(5) type_after_final [OF l(3)] by simp
  ultimately show ?thesis using r(3,4) by blast
qed


text \<open>
  Claim C4, as stated, fails: the \<^verbatim>\<open>$ref\<close> test comes before the \<^verbatim>\<open>allOf\<close> test. A fragment
  with an \<^verbatim>\<open>allOf\<close> list and a reference that resolves gives the resolution of the
  reference's target; its sub-schemas are not resolved and nothing is merged.
\<close>

theorem C4_ref_wins_counterexample:
  "map_of ref_and_all_of ''allOf'' = Some (JList [named_part, amount_part]) \<and>
   convert_openapi_to_json_schema 4 remdups named_part demo_components = Inr named_part \<and>
   convert_openapi_to_json_schema 4 remdups amount_part demo_components = Inr amount_part \<and>
   convert_openapi_to_json_schema 5 remdups (JDict ref_and_all_of) demo_components
     = Inr string_schema \<and>
   schema_properties string_schema = [] \<and>
   merged_properties [named_part, amount_part] ''name'' = Some (JDict [(''type'', JStr ''integer'')]) \<and>
   schema_required string_schema = [] \<and>
   schema_required named_part = [JStr ''name''] \<and>
   schema_type string_schema = JStr ''string'' \<and>
   first_type [named_part, amount_part] = JStr ''object''"
  by code_simp

text \<open>
  Claim C4, amended. Take a fragment whose \<^verbatim>\<open>allOf\<close> is a list, with the \<^verbatim>\<open>$ref\<close> branch
  passed, whose sub-schemas resolve to \<open>cs\<close>, each of the expected shape. Then the
  fragment resolves, and in the result: the properties are the union of the properties
  of \<open>cs\<close>, a later one overwriting an earlier one of the same name; the required list
  has the elements of all required lists of \<open>cs\<close>, each once; the type is the first
  non-empty type of \<open>cs\<close>, and \<^verbatim>\<open>object\<close> when there is none.
\<close>

theorem C4_all_of_merge:
  assumes "map_of d ''allOf'' = Some (JList subs)"
    and "falls_through_ref (JDict d) components"
    and "list_all2 (\<lambda>s c. convert_openapi_to_json_schema depth set_order s components = Inr c) subs cs"
    and "list_all resolved_object cs"
    and "set_order_law set_order"
  shows "\<exists>r. convert_openapi_to_json_schema (Suc depth) set_order (JDict d) components = Inr r \<and>
     map_of (schema_properties r) = merged_properties cs \<and>
     set (schema_required r) = set (concat (map schema_required cs)) \<and>
     distinct (schema_required r) \<and>
     schema_type r = first_type cs"
  using assms by (rule convert_all_of_objects)

theorem C4_all_of_merge_witness:
  "map_of all_of_parts ''allOf'' = Some (JList [named_part, amount_part]) \<and>
   falls_through_ref (JDict all_of_parts) (JDict []) \<and>
   list_all2 (\<lambda>s c. convert_openapi_to_json_schema 2 remdups s (JDict []) = Inr c)
     [named_part, amount_part] [named_part, amount_part] \<and>
   list_all resolved_object [named_part, amount_part] \<and>
   set_order_law remdups \<and>
   (\<exists>r. convert_openapi_to_json_schema 3 remdups (JDict all_of_parts) (JDict []) = Inr r \<and>
      map_of (schema_properties r) ''name'' = Some (JDict [(''type'', JStr ''integer'')]) \<and>
      map_of (schema_properties r) ''amount'' = Some (JDict [(''type'', JStr ''integer'')]) \<and>
      set (schema_required r) = {JStr ''name'', JStr ''amount''} \<and>
      schema_type r = JStr ''object'')"
proof -
  have h1: "map_of all_of_parts ''allOf'' = Some (JList [named_part, amount_part])"
    by (simp add: all_of_parts_def)
  have h2: "falls_through_ref (JDict all_of_parts) (JDict [])"
    by (simp add: falls_through_ref_def all_of_parts_def)
  have h3: "list_all2 (\<lambda>s c. convert_openapi_to_json_schema 2 remdups s (JDict []) = Inr c)
     [named_part, amount_part] [named_part, amount_part]"
    by code_simp
  have h4: "list_all resolved_object [named_part, amount_part]"
    by code_simp
  have h5: "set_order_law remdups"
    by (rule set_order_law_remdups)
  have m1: "merged_properties [named_part, amount_part] ''name'' = Some (JDict [(''type'', JStr ''integer'')])"
    by code_simp
  have m2: "merged_properties [named_part, amount_part] ''amount'' = Some (JDict [(''type'', JStr ''integer'')])"
    by code_simp
  have m3: "set (concat (map schema_required [named_part, amount_part])) = {JStr ''name'', JStr ''amount''}"
    by code_simp
  have m4: "first_type [named_part, amount_part] = JStr ''object''"
    by code_simp
  have n: "Suc 2 = 3" by simp
  from C4_all_of_merge [OF h1 h2 h3 h4 h5] obtain r where
    r: "convert_openapi_to_json_schema (Suc 2) remdups (JDict all_of_parts) (JDict []) = Inr r"
       "map_of (schema_properties r) = merged_properties [named_part, amount_part]"
       "set (schema_required r) = set (concat (map schema_required [named_part, amount_part]))"
       "schema_type r = first_type [named_part, amount_part]"
    by blast
  from r(1) n have r1: "convert_openapi_to_json_schema 3 remdups (JDict all_of_parts) (JDict []) = Inr r"
    by (simp only:)
  from r(2) m1 have a: "map_of (schema_properties r) ''name'' = Some (JDict [(''type'', JStr ''integer'')])"
    by simp
  from r(2) m2 have b: "map_of (schema_properties r) ''amount'' = Some (JDict [(''type'', JStr ''integer'')])"
    by simp
  from r(3) m3 have c: "set (schema_required r) = {JStr ''name'', JStr ''amount''}"
    by simp
  from r(4) m4 have d: "schema_type r = JStr ''object''"
    by simp
  from r1 a b c d have "\<exists>r. convert_openapi_to_json_schema 3 remdups (JDict all_of_parts) (JDict []) = Inr r \<and>
      map_of (schema_properties r) ''name'' = Some (JDict [(''type'', JStr ''integer'')]) \<and>
      map_of (schema_properties r) ''amount'' = Some (JDict [(''type'', JStr ''integer'')]) \<and>
      set (schema_required r) = {JStr ''name'', JStr ''amount''} \<and>
      schema_type r = JStr ''object''"
    by blast
  with h1 h2 h3 h4 h5 show ?thesis by blast
qed


subsection \<open>Read-only properties\<close>






















section \<open>Properties of the catalog builder\<close>
















end
